theory Spec2Isabelle
  imports Main "HOL-Library.Char_ord" "HOL-Library.List_Lexorder"
begin

section \<open>The golf swing capture controller\<close>

text \<open>
  A shallow embedding of \<^verbatim>\<open>swing_camera.py\<close> (class \<^verbatim>\<open>SwingCamera\<close>) and of the
  \<^verbatim>\<open>record\<close> methods of \<^verbatim>\<open>camera_backends.py\<close>.

  The controller object is a record that every method takes and returns. What the
  methods read from the outside world is an argument of the model: the formatted clock
  reading (\<^verbatim>\<open>datetime.now().strftime\<close>), \<^verbatim>\<open>time.time()\<close> in milliseconds, whether the
  backend's \<^verbatim>\<open>record\<close> returns or raises, how the ffmpeg process ends, and whether the
  worker thread finishes while a caller waits in \<^verbatim>\<open>join(timeout=5)\<close>. The output
  directory is a list of the paths that exist in it, together with the paths on which
  \<^verbatim>\<open>os.remove\<close>, \<^verbatim>\<open>open(_, 'w')\<close>, \<^verbatim>\<open>json.load\<close> and \<^verbatim>\<open>Path.exists\<close> raise.
  Paths are kept as the strings the code builds (relative to \<^verbatim>\<open>output_dir\<close>); they
  are not normalised. The output file of a record call is in the directory once the
  call has ended. Whether the ffmpeg process leaves a file at its output path is part of
  how the process ends.
\<close>

subsection \<open>Strings and paths\<close>


definition endswith :: "string \<Rightarrow> string \<Rightarrow> bool" where
  "endswith s e = (length e \<le> length s \<and> drop (length s - length e) s = e)"

text \<open>
  All three backends begin \<^verbatim>\<open>record\<close> with
  \<^verbatim>\<open>if output_str.endswith('.h264'): output_str = output_str[:-5] + '.mp4'\<close>.
\<close>

definition normalize_ext :: "string \<Rightarrow> string" where
  "normalize_ext output_str =
     (if endswith output_str ''.h264''
      then take (length output_str - 5) output_str @ ''.mp4''
      else output_str)"

text \<open>\<^verbatim>\<open>str(output_path)\<close>, where the path may be \<^verbatim>\<open>None\<close>.\<close>

definition str_path :: "string option \<Rightarrow> string" where
  "str_path p = (case p of None \<Rightarrow> ''None'' | Some s \<Rightarrow> s)"

text \<open>
  \<^verbatim>\<open>Path.name\<close> is the last component; \<^verbatim>\<open>Path.suffix\<close> is \<^verbatim>\<open>name[i:]\<close> for
  \<^verbatim>\<open>i = name.rfind('.')\<close> when \<^verbatim>\<open>0 < i < len(name) - 1\<close>, and empty otherwise;
  \<^verbatim>\<open>Path.with_suffix\<close> replaces that suffix, or appends when there is none.
\<close>

definition path_name :: "string \<Rightarrow> string" where
  "path_name p = rev (takeWhile (\<lambda>c. c \<noteq> CHR ''/'') (rev p))"

definition path_suffix :: "string \<Rightarrow> string" where
  "path_suffix p =
     (let name = path_name p;
          after = rev (takeWhile (\<lambda>c. c \<noteq> CHR ''.'') (rev name))
      in if CHR ''.'' \<in> set name \<and> length after + 1 < length name \<and> after \<noteq> []
         then CHR ''.'' # after else [])"

definition with_suffix :: "string \<Rightarrow> string \<Rightarrow> string" where
  "with_suffix p suffix = take (length p - length (path_suffix p)) p @ suffix"


text \<open>Decimal digits of a number, for the f-strings of the log messages.\<close>

fun string_of_nat :: "nat \<Rightarrow> string" where
  "string_of_nat n =
     (if n < 10 then [char_of (48 + n)]
      else string_of_nat (n div 10) @ [char_of (48 + n mod 10)])"

declare string_of_nat.simps [simp del]

subsection \<open>Configuration, exceptions, log\<close>

record config_t =
  cfg_width :: nat
  cfg_height :: nat
  cfg_fps :: nat
  cfg_duration :: nat
  cfg_format :: string
  cfg_shutter_speed :: nat
  cfg_upload_enabled :: bool
  cfg_lm_max_recording_duration :: nat

text \<open>The \<^verbatim>\<open>default_config\<close> of \<^verbatim>\<open>_load_config\<close> (the keys the controller reads).\<close>

definition default_config :: config_t where
  "default_config =
     \<lparr>cfg_width = 1456, cfg_height = 1088, cfg_fps = 120, cfg_duration = 10,
      cfg_format = ''h264'', cfg_shutter_speed = 2000, cfg_upload_enabled = False,
      cfg_lm_max_recording_duration = 60\<rparr>"

datatype exn =
    OSError string
  | FileNotFoundError string
  | BackendError string
  | AttributeError string
  | TimeoutExpired

fun str_exn :: "exn \<Rightarrow> string" where
  "str_exn (OSError m) = m"
| "str_exn (FileNotFoundError m) = m"
| "str_exn (BackendError m) = m"
| "str_exn (AttributeError m) = m"
| "str_exn TimeoutExpired = ''timed out''"

datatype level = INFO | WARNING | ERROR

type_synonym log_entry = "level \<times> string"

subsection \<open>The output directory\<close>

record filesys =
  files :: "string list"
  undeletable :: "string list"
  unwritable :: "string list"
  unreadable :: "string list"
  unstatable :: "string list"

text \<open>Whether a file is in the directory.\<close>

definition path_exists :: "filesys \<Rightarrow> string \<Rightarrow> bool" where
  "path_exists d p = (p \<in> set (files d))"

text \<open>
  \<^verbatim>\<open>Path.exists()\<close>: it answers whether the file is there, or raises when the path
  cannot be examined (it swallows only the errors that mean the file is absent).
\<close>

definition stat_exists :: "filesys \<Rightarrow> string \<Rightarrow> exn + bool" where
  "stat_exists d p =
     (if p \<in> set (unstatable d) then Inl (OSError ''Permission denied'')
      else Inr (path_exists d p))"

text \<open>Writing a file creates it, or overwrites it when it is there.\<close>

definition create :: "filesys \<Rightarrow> string \<Rightarrow> filesys" where
  "create d p = (if p \<in> set (files d) then d else d\<lparr>files := files d @ [p]\<rparr>)"

text \<open>\<^verbatim>\<open>os.remove\<close>: raises when the file is missing or cannot be removed.\<close>

definition os_remove :: "filesys \<Rightarrow> string \<Rightarrow> exn + filesys" where
  "os_remove d p =
     (if p \<in> set (files d)
      then (if p \<in> set (undeletable d) then Inl (OSError ''Permission denied'')
            else Inr (d\<lparr>files := removeAll p (files d)\<rparr>))
      else Inl (FileNotFoundError ''No such file or directory''))"

text \<open>\<^verbatim>\<open>open(p, 'w')\<close> followed by a write.\<close>

definition open_write :: "filesys \<Rightarrow> string \<Rightarrow> exn + filesys" where
  "open_write d p =
     (if p \<in> set (unwritable d) then Inl (OSError ''Permission denied'')
      else Inr (create d p))"

subsection \<open>The backend's record call, as the controller sees it\<close>

text \<open>
  \<^verbatim>\<open>record(output_path, duration, cancel_event=None)\<close> either returns the path it
  wrote, which is the normalised one, or raises; when it raises, the output may have
  been started (\<open>RecFail True\<close>) or not.
\<close>

datatype rec_result = RecOk | RecFail bool

definition backend_record :: "filesys \<Rightarrow> string \<Rightarrow> rec_result \<Rightarrow> (exn + string) \<times> filesys" where
  "backend_record d output_path rr =
     (let output_str = normalize_ext output_path
      in case rr of
           RecOk \<Rightarrow> (Inr output_str, create d output_str)
         | RecFail partial \<Rightarrow>
             (Inl (BackendError ''record failed''),
              if partial then create d output_str else d))"

subsection \<open>The controller object\<close>

datatype LMState = IDLE | ARMED | PROCESSING

fun lm_value :: "LMState \<Rightarrow> string" where
  "lm_value IDLE = ''idle''"
| "lm_value ARMED = ''armed''"
| "lm_value PROCESSING = ''processing''"

text \<open>
  The controller owns two \<^verbatim>\<open>threading.Event\<close> objects. A \<^verbatim>\<open>record\<close> call is given
  one of them as \<^verbatim>\<open>cancel_event\<close>, or \<^verbatim>\<open>None\<close>.
\<close>

datatype event_ref = RECORDING_EVENT | LM_CANCEL_EVENT

text \<open>
  The thread object in \<^verbatim>\<open>lm_recording_thread\<close>: started but not yet running
  \<^verbatim>\<open>_lm_continuous_record\<close>; blocked inside \<^verbatim>\<open>backend.record\<close>, with the three
  arguments of that call; or finished.
\<close>

datatype thread = Spawned | InRecord "string option" nat "event_ref option" | Finished

record controller =
  config :: config_t
  recording :: bool
  recording_event :: bool
  lm_state :: LMState
  lm_recording_thread :: "thread option"
  lm_temp_file :: "string option"
  lm_recording_start_time :: "int option"
  lm_cancel_event :: bool
  fs :: filesys
  log :: "log_entry list"
  uploads :: "string list"

text \<open>\<^verbatim>\<open>__init__\<close>, on an output directory \<open>d\<close>.\<close>

definition init_controller :: "config_t \<Rightarrow> filesys \<Rightarrow> controller" where
  "init_controller cfg d =
     \<lparr>config = cfg, recording = False, recording_event = False, lm_state = IDLE,
      lm_recording_thread = None, lm_temp_file = None, lm_recording_start_time = None,
      lm_cancel_event = False, fs = d, log = [], uploads = []\<rparr>"

definition logmsg :: "level \<Rightarrow> string \<Rightarrow> controller \<Rightarrow> controller" where
  "logmsg lvl m c = c\<lparr>log := log c @ [(lvl, m)]\<rparr>"

text \<open>The extension both modes choose from \<^verbatim>\<open>config['format']\<close>.\<close>

definition with_format_ext :: "controller \<Rightarrow> string \<Rightarrow> string" where
  "with_format_ext c filename =
     (if cfg_format (config c) = ''h264'' then filename @ ''.h264'' else filename @ ''.mp4'')"

subsection \<open>Metadata and upload\<close>

record metadata =
  md_timestamp :: string
  md_filename :: string
  md_width :: nat
  md_height :: nat
  md_fps :: nat
  md_duration :: nat
  md_shutter_speed :: nat

text \<open>
  \<^verbatim>\<open>_save_metadata\<close> has no handler of its own: \<^verbatim>\<open>os.path.getsize\<close> raises when the
  video is missing and \<^verbatim>\<open>open(metadata_path, 'w')\<close> raises when the sidecar cannot be
  written. File sizes are not modelled, so the \<^verbatim>\<open>file_size\<close> entry is left out.
\<close>

definition save_metadata ::
  "controller \<Rightarrow> string \<Rightarrow> string \<Rightarrow> exn + (controller \<times> metadata)" where
  "save_metadata c video_path timestamp =
     (if path_exists (fs c) video_path
      then (let md = \<lparr>md_timestamp = timestamp, md_filename = path_name video_path,
                       md_width = cfg_width (config c), md_height = cfg_height (config c),
                       md_fps = cfg_fps (config c), md_duration = cfg_duration (config c),
                       md_shutter_speed = cfg_shutter_speed (config c)\<rparr>;
                metadata_path = with_suffix video_path ''.json''
            in case open_write (fs c) metadata_path of
                 Inl e \<Rightarrow> Inl e
               | Inr d \<Rightarrow> Inr (c\<lparr>fs := d\<rparr>, md))
      else Inl (FileNotFoundError ''No such file or directory''))"

text \<open>
  \<^verbatim>\<open>_upload_file\<close> starts a daemon thread and returns; the model records the path
  handed over.
\<close>

definition upload_file :: "controller \<Rightarrow> string \<Rightarrow> controller" where
  "upload_file c file_path = c\<lparr>uploads := uploads c @ [file_path]\<rparr>"

subsection \<open>Single-shot capture\<close>

text \<open>The \<^verbatim>\<open>except Exception\<close> branch of \<^verbatim>\<open>capture_swing\<close>.\<close>

definition capture_failed :: "exn \<Rightarrow> controller \<Rightarrow> controller \<times> string option" where
  "capture_failed e c =
     ((logmsg ERROR (''Recording failed: '' @ str_exn e) c)
        \<lparr>recording := False, recording_event := True\<rparr>, None)"

text \<open>
  \<^verbatim>\<open>filename = custom_name if custom_name else f"swing_{timestamp}"\<close>: a custom
  name is used when it is truthy, that is, given and not the empty string.
\<close>

definition capture_filename :: "string option \<Rightarrow> string \<Rightarrow> string" where
  "capture_filename custom_name timestamp =
     (case custom_name of
        None \<Rightarrow> ''swing_'' @ timestamp
      | Some n \<Rightarrow> if n = [] then ''swing_'' @ timestamp else n)"

text \<open>
  \<^verbatim>\<open>capture_swing(custom_name)\<close>, returning the path of the recording or
  \<^verbatim>\<open>None\<close>. The call to the backend passes no cancel event.
\<close>

definition capture_swing ::
  "controller \<Rightarrow> string option \<Rightarrow> string \<Rightarrow> rec_result \<Rightarrow> controller \<times> string option" where
  "capture_swing c custom_name timestamp rr =
     (if recording c then (logmsg WARNING ''Already recording!'' c, None)
      else
        let filename = capture_filename custom_name timestamp;
            output_path = with_format_ext c filename;
            c1 = logmsg INFO (''Starting recording: '' @ output_path) c;
            c2 = c1\<lparr>recording := True, recording_event := False\<rparr>
        in case backend_record (fs c2) output_path rr of
             (Inl e, d) \<Rightarrow> capture_failed e (c2\<lparr>fs := d\<rparr>)
           | (Inr actual_output_path, d) \<Rightarrow>
               let c3 = logmsg INFO (''Recording complete: '' @ actual_output_path)
                          (c2\<lparr>fs := d, recording := False, recording_event := True\<rparr>)
               in (case save_metadata c3 actual_output_path timestamp of
                     Inl e \<Rightarrow> capture_failed e c3
                   | Inr (c4, md) \<Rightarrow>
                       (if cfg_upload_enabled (config c4)
                        then upload_file c4 actual_output_path else c4,
                        Some actual_output_path)))"

subsection \<open>Listing and deleting recordings\<close>








subsection \<open>Launch monitor: arming and the background worker\<close>

text \<open>The dictionaries the launch-monitor methods return.\<close>

datatype lm_result =
    StatusArmed nat
  | StatusError string
  | StatusSuccess string string
  | StatusOk string
  | StatusCancelled

definition arm_launch_monitor ::
  "controller \<Rightarrow> string \<Rightarrow> int \<Rightarrow> controller \<times> lm_result" where
  "arm_launch_monitor c timestamp now =
     (if lm_state c \<noteq> IDLE
      then (logmsg WARNING (''Cannot arm: already in state '' @ lm_value (lm_state c)) c,
            StatusError (''Already '' @ lm_value (lm_state c)))
      else if recording c
      then (logmsg WARNING ''Cannot arm: regular recording in progress'' c,
            StatusError ''Camera busy with regular recording'')
      else
        let temp = with_format_ext c (''temp_lm_'' @ timestamp);
            c1 = c\<lparr>lm_temp_file := Some temp, lm_state := ARMED,
                   lm_recording_start_time := Some now, lm_cancel_event := False,
                   lm_recording_thread := Some Spawned\<rparr>
        in (logmsg INFO (''Launch monitor armed, recording to '' @ temp) c1,
            StatusArmed (cfg_lm_max_recording_duration (config c))))"

text \<open>
  \<^verbatim>\<open>_lm_continuous_record\<close> runs in the thread \<^verbatim>\<open>arm_launch_monitor\<close> started. It
  is split where it blocks: \<open>worker_start\<close> runs it up to the call
  \<^verbatim>\<open>self.backend.record(self.lm_temp_file, max_duration)\<close> and \<open>worker_finish\<close> runs it
  from the return of that call to the end. The call names two arguments, so the
  backend's \<^verbatim>\<open>cancel_event\<close> parameter takes its default \<^verbatim>\<open>None\<close>.
\<close>

definition worker_start :: "controller \<Rightarrow> controller" where
  "worker_start c =
     (case lm_recording_thread c of
        Some Spawned \<Rightarrow>
          let max_duration = cfg_lm_max_recording_duration (config c);
              c1 = logmsg INFO (''Starting continuous recording (max ''
                                  @ string_of_nat max_duration @ ''s)'') c
          in c1\<lparr>recording := True,
                lm_recording_thread := Some (InRecord (lm_temp_file c1) max_duration None)\<rparr>
      | _ \<Rightarrow> c)"

text \<open>The outer \<^verbatim>\<open>except Exception\<close> of the worker, after its \<^verbatim>\<open>finally\<close>.\<close>

definition worker_failed :: "exn \<Rightarrow> controller \<Rightarrow> controller" where
  "worker_failed e c =
     (logmsg ERROR (''Continuous recording failed: '' @ str_exn e) (c\<lparr>recording := False\<rparr>))
       \<lparr>lm_state := IDLE, recording := False, lm_recording_thread := Some Finished\<rparr>"

text \<open>The last two assignments of the timeout branch, and the \<^verbatim>\<open>finally\<close>.\<close>

definition worker_clear :: "controller \<Rightarrow> controller" where
  "worker_clear c =
     c\<lparr>lm_temp_file := None, lm_recording_start_time := None, recording := False,
       lm_recording_thread := Some Finished\<rparr>"

definition worker_finish :: "controller \<Rightarrow> rec_result \<Rightarrow> controller" where
  "worker_finish c rr =
     (case lm_recording_thread c of
        Some (InRecord output_path max_duration cancel_event) \<Rightarrow>
          (case backend_record (fs c) (str_path output_path) rr of
             (Inl e, d) \<Rightarrow> worker_failed e (c\<lparr>fs := d\<rparr>)
           | (Inr actual_output_path, d) \<Rightarrow>
               let c1 = c\<lparr>fs := d\<rparr>
               in if lm_cancel_event c1
                  then (logmsg INFO ''Continuous recording cancelled'' c1)
                         \<lparr>recording := False, lm_recording_thread := Some Finished\<rparr>
                  else
                    let c2 = (logmsg WARNING (''Launch monitor timeout (''
                                @ string_of_nat max_duration @ ''s) - cancelling'') c1)
                               \<lparr>lm_state := IDLE\<rparr>
                    in (case lm_temp_file c2 of
                          None \<Rightarrow> worker_clear c2
                        | Some temp \<Rightarrow>
                            (case stat_exists (fs c2) temp of
                               Inl e \<Rightarrow> worker_failed e c2
                             | Inr False \<Rightarrow> worker_clear c2
                             | Inr True \<Rightarrow>
                                 (case os_remove (fs c2) temp of
                                    Inl e \<Rightarrow> worker_failed e c2
                                  | Inr d2 \<Rightarrow>
                                      worker_clear
                                        (logmsg INFO ''Deleted temp file after timeout''
                                           (c2\<lparr>fs := d2\<rparr>))))))
      | _ \<Rightarrow> c)"

text \<open>
  \<^verbatim>\<open>if self.lm_recording_thread: self.lm_recording_thread.join(timeout=5)\<close>. Either the
  worker's \<^verbatim>\<open>record\<close> call ends within the wait, with result \<open>rr\<close>, and the worker runs
  to its end (\<open>Some rr\<close>), or the wait ends first and the caller goes on while the
  worker is where it was (\<open>None\<close>).
\<close>

definition join_worker :: "controller \<Rightarrow> rec_result option \<Rightarrow> controller" where
  "join_worker c jr =
     (case jr of None \<Rightarrow> c | Some rr \<Rightarrow> worker_finish (worker_start c) rr)"

subsection \<open>Launch monitor: clip extraction, shot detection, cancelling, status\<close>

text \<open>
  How \<^verbatim>\<open>subprocess.run(cmd, timeout=30)\<close> ends: it returns with the return code
  of the process, the timeout expires and the process is killed, or the call raises
  something else, as when the process cannot be launched. A process that ran may leave
  a file at its output path, whatever its end; the flag says whether it does. What the
  process prints is not modelled.
\<close>

datatype ffmpeg_result = Exited int bool | FfmpegTimedOut bool | LaunchFailed

definition ffmpeg_run :: "filesys \<Rightarrow> string \<Rightarrow> ffmpeg_result \<Rightarrow> filesys" where
  "ffmpeg_run d output_path ff =
     (case ff of
        Exited returncode wrote \<Rightarrow> if wrote then create d output_path else d
      | FfmpegTimedOut wrote \<Rightarrow> if wrote then create d output_path else d
      | LaunchFailed \<Rightarrow> d)"

text \<open>
  \<^verbatim>\<open>_extract_clip(input_path, output_path, duration)\<close>. Every exception inside it,
  also one of \<^verbatim>\<open>input_path.exists()\<close> (on \<^verbatim>\<open>None\<close>, or on a path that cannot be
  examined) or of \<^verbatim>\<open>os.remove\<close>, ends in a handler that returns \<^verbatim>\<open>False\<close>. It never
  removes the output path.
\<close>

definition extract_clip ::
  "controller \<Rightarrow> string option \<Rightarrow> string \<Rightarrow> nat \<Rightarrow> ffmpeg_result \<Rightarrow> bool \<times> controller" where
  "extract_clip c input_path output_path duration ff =
     (let c0 = logmsg INFO (''Extracting last '' @ string_of_nat duration @ ''s from ''
                              @ str_path input_path) c;
          c1 = c0\<lparr>fs := ffmpeg_run (fs c0) output_path ff\<rparr>
      in case ff of
           LaunchFailed \<Rightarrow>
             (False,
              logmsg ERROR (''Extraction failed: ''
                @ str_exn (FileNotFoundError ''No such file or directory: ffmpeg'')) c1)
         | FfmpegTimedOut wrote \<Rightarrow> (False, logmsg ERROR ''FFmpeg extraction timed out'' c1)
         | Exited returncode wrote \<Rightarrow>
             if returncode = 0
             then
               (let c2 = logmsg INFO (''Extraction complete: '' @ output_path) c1
                in case input_path of
                     None \<Rightarrow>
                       (False,
                        logmsg ERROR (''Extraction failed: ''
                          @ str_exn (AttributeError ''NoneType object has no attribute exists'')) c2)
                   | Some inp \<Rightarrow>
                       (case stat_exists (fs c2) inp of
                          Inl e \<Rightarrow>
                            (False, logmsg ERROR (''Extraction failed: '' @ str_exn e) c2)
                        | Inr False \<Rightarrow> (True, c2)
                        | Inr True \<Rightarrow>
                            (case os_remove (fs c2) inp of
                               Inl e \<Rightarrow>
                                 (False, logmsg ERROR (''Extraction failed: '' @ str_exn e) c2)
                             | Inr d \<Rightarrow>
                                 (True, logmsg INFO (''Deleted temp file: '' @ inp)
                                          (c2\<lparr>fs := d\<rparr>)))))
             else (False, logmsg ERROR ''FFmpeg failed: '' c1))"

text \<open>The three assignments that every exit of \<^verbatim>\<open>shot_detected\<close>'s \<^verbatim>\<open>try\<close> makes.\<close>

definition lm_reset :: "controller \<Rightarrow> controller" where
  "lm_reset c = c\<lparr>lm_state := IDLE, lm_temp_file := None, lm_recording_start_time := None\<rparr>"

definition shot_detected ::
  "controller \<Rightarrow> string \<Rightarrow> rec_result option \<Rightarrow> ffmpeg_result \<Rightarrow> controller \<times> lm_result" where
  "shot_detected c timestamp jr ff =
     (if lm_state c \<noteq> ARMED
      then (logmsg WARNING (''Cannot detect shot: not armed (state: ''
                              @ lm_value (lm_state c) @ '')'') c,
            StatusError (''Not armed (state: '' @ lm_value (lm_state c) @ '')''))
      else
        let c1 = (logmsg INFO ''Shot detected, stopping recording and extracting clip...'' c)
                   \<lparr>lm_state := PROCESSING, lm_cancel_event := True\<rparr>;
            c2 = join_worker c1 jr;
            output_path = with_format_ext c2 (''swing_'' @ timestamp)
        in (case extract_clip c2 (lm_temp_file c2) output_path (cfg_duration (config c2)) ff of
              (True, c3) \<Rightarrow>
                (case save_metadata c3 output_path timestamp of
                   Inl e \<Rightarrow>
                     (lm_reset (logmsg ERROR (''Shot detection failed: '' @ str_exn e) c3),
                      StatusError (str_exn e))
                 | Inr (c4, md) \<Rightarrow>
                     let c5 = (if cfg_upload_enabled (config c4)
                               then upload_file c4 output_path else c4)
                     in (lm_reset (logmsg INFO (''Clip extracted successfully: '' @ output_path) c5),
                         StatusSuccess (path_name output_path) output_path))
            | (False, c3) \<Rightarrow> (lm_reset c3, StatusError ''Failed to extract clip'')))"

text \<open>The two assignments at the end of \<^verbatim>\<open>cancel_launch_monitor\<close>.\<close>

definition lm_clear :: "controller \<Rightarrow> controller" where
  "lm_clear c = c\<lparr>lm_temp_file := None, lm_recording_start_time := None\<rparr>"

text \<open>
  \<^verbatim>\<open>cancel_launch_monitor\<close>. The test \<^verbatim>\<open>self.lm_temp_file.exists()\<close> stands before
  the \<^verbatim>\<open>try\<close> that wraps \<^verbatim>\<open>os.remove\<close>: when the test raises, the exception leaves
  the method, after the state was set and before the fields are cleared. The result is
  the dictionary returned or the exception raised, beside the controller as the call
  leaves it.
\<close>

definition cancel_launch_monitor ::
  "controller \<Rightarrow> rec_result option \<Rightarrow> controller \<times> (exn + lm_result)" where
  "cancel_launch_monitor c jr =
     (if lm_state c = IDLE then (c, Inr (StatusOk ''Already idle''))
      else
        let c1 = (logmsg INFO ''Cancelling launch monitor recording...'' c)
                   \<lparr>lm_cancel_event := True, lm_state := IDLE\<rparr>;
            c2 = join_worker c1 jr
        in (case lm_temp_file c2 of
              None \<Rightarrow> (lm_clear c2, Inr StatusCancelled)
            | Some temp \<Rightarrow>
                (case stat_exists (fs c2) temp of
                   Inl e \<Rightarrow> (c2, Inl e)
                 | Inr False \<Rightarrow> (lm_clear c2, Inr StatusCancelled)
                 | Inr True \<Rightarrow>
                     (case os_remove (fs c2) temp of
                        Inr d \<Rightarrow>
                          (lm_clear (logmsg INFO (''Deleted temp file: '' @ temp) (c2\<lparr>fs := d\<rparr>)),
                           Inr StatusCancelled)
                      | Inl e \<Rightarrow>
                          (lm_clear (logmsg ERROR (''Failed to delete temp file: ''
                                                     @ str_exn e) c2),
                           Inr StatusCancelled)))))"

text \<open>
  \<^verbatim>\<open>get_lm_status\<close> reads and returns; a start time of zero is falsy. Times are in
  milliseconds and are not rounded.
\<close>

definition get_lm_status :: "controller \<Rightarrow> int \<Rightarrow> string \<times> int \<times> nat" where
  "get_lm_status c now =
     (let recording_duration =
            (case lm_recording_start_time c of
               None \<Rightarrow> 0
             | Some t \<Rightarrow> if t = 0 then 0 else now - t)
      in (lm_value (lm_state c), recording_duration, cfg_lm_max_recording_duration (config c)))"

text \<open>
  The launch-monitor invariant of the data model: the temp-file path and the arm
  timestamp are set exactly when the state is not \<open>IDLE\<close>.
\<close>

definition lm_invariant :: "controller \<Rightarrow> bool" where
  "lm_invariant c =
     ((lm_temp_file c \<noteq> None) = (lm_state c \<noteq> IDLE)
      \<and> (lm_recording_start_time c \<noteq> None) = (lm_state c \<noteq> IDLE))"

subsection \<open>How long a record call lasts\<close>

text \<open>
  Time is counted in milliseconds. A \<^verbatim>\<open>threading.Event\<close> that other threads set and
  clear is the function that says, for each time, whether \<^verbatim>\<open>is_set()\<close> holds then.
  \<^verbatim>\<open>time.sleep(0.1)\<close> takes 100 ms and the rest of a loop body takes none.
\<close>

type_synonym event = "nat \<Rightarrow> bool"

text \<open>\<^verbatim>\<open>cancel_event and cancel_event.is_set()\<close>.\<close>

definition is_cancelled :: "event option \<Rightarrow> nat \<Rightarrow> bool" where
  "is_cancelled cancel_event now = (case cancel_event of None \<Rightarrow> False | Some ev \<Rightarrow> ev now)"

text \<open>
  The waiting loop of \<^verbatim>\<open>PiCamera2Backend.record\<close>, for a duration in seconds; the
  result is the time at which the loop is left.
\<close>

function picamera2_wait :: "nat \<Rightarrow> nat \<Rightarrow> nat \<Rightarrow> event option \<Rightarrow> nat" where
  "picamera2_wait start_time now duration cancel_event =
     (if now - start_time < 1000 * duration
      then (if is_cancelled cancel_event now then now
            else picamera2_wait start_time (now + 100) duration cancel_event)
      else now)"
  by pat_completeness auto
termination
  by (relation "measure (\<lambda>(start_time, now, duration, cancel_event).
                  start_time + 1000 * duration - now)") auto

text \<open>
  \<^verbatim>\<open>DemoBackend.record\<close>. With OpenCV and an opened writer it writes
  \<^verbatim>\<open>int(fps * duration)\<close> frames, each taking \<open>frame_ms\<close>; otherwise it sleeps for
  \<^verbatim>\<open>duration\<close> and writes a placeholder. Neither path reads \<^verbatim>\<open>cancel_event\<close>. The
  result is the number of frames written and the time of the return.
\<close>

definition demo_record ::
  "bool \<Rightarrow> nat \<Rightarrow> nat \<Rightarrow> nat \<Rightarrow> nat \<Rightarrow> event option \<Rightarrow> nat \<times> nat" where
  "demo_record cv2_writer_opened fps frame_ms now duration cancel_event =
     (if cv2_writer_opened
      then (let num_frames = fps * duration in (num_frames, now + frame_ms * num_frames))
      else (0, now + 1000 * duration))"

text \<open>
  The event object a controller's call hands to the backend, given the history of each
  of the controller's events.
\<close>

definition passed_event :: "(event_ref \<Rightarrow> event) \<Rightarrow> event_ref option \<Rightarrow> event option" where
  "passed_event history cancel_event = map_option history cancel_event"

subsection \<open>Concrete situations\<close>

text \<open>
  An event that is set at time \<open>t0\<close> and stays set, and the history in which the
  launch monitor's cancel event is set at \<open>t0\<close> while the other event never is.
\<close>

definition set_from :: "nat \<Rightarrow> event" where
  "set_from t0 t = (t0 \<le> t)"

definition cancel_history :: "nat \<Rightarrow> event_ref \<Rightarrow> event" where
  "cancel_history t0 r t = (r = LM_CANCEL_EVENT \<and> t0 \<le> t)"

text \<open>
  Directories: an empty one; one whose path \<open>p\<close> cannot be removed once it is there;
  one whose path \<open>p\<close> cannot be written; one that holds \<open>p\<close>, which cannot be removed.
\<close>

definition empty_dir :: filesys where
  "empty_dir =
     \<lparr>files = [], undeletable = [], unwritable = [], unreadable = [], unstatable = []\<rparr>"


definition unwritable_dir :: "string \<Rightarrow> filesys" where
  "unwritable_dir p =
     \<lparr>files = [], undeletable = [], unwritable = [p], unreadable = [], unstatable = []\<rparr>"

definition stuck_dir :: "string \<Rightarrow> filesys" where
  "stuck_dir p =
     \<lparr>files = [p], undeletable = [p], unwritable = [], unreadable = [], unstatable = []\<rparr>"

definition mp4_config :: config_t where
  "mp4_config = default_config\<lparr>cfg_format := ''mp4''\<rparr>"

text \<open>
  A controller with the default configuration on an empty directory; the same after
  \<^verbatim>\<open>arm_launch_monitor\<close> at clock reading \<^verbatim>\<open>T\<close>, 5 ms; and the same once the worker
  thread is inside \<^verbatim>\<open>backend.record\<close>.
\<close>

definition fresh_controller :: controller where
  "fresh_controller = init_controller default_config empty_dir"

definition armed_controller :: controller where
  "armed_controller = fst (arm_launch_monitor fresh_controller ''T'' 5)"

definition recording_controller :: controller where
  "recording_controller = worker_start armed_controller"


section \<open>Properties\<close>

subsection \<open>Paths\<close>

lemma normalize_ext_format: "normalize_ext (with_format_ext c f) = f @ ''.mp4''"
proof (cases "cfg_format (config c) = ''h264''")
  case True
  then show ?thesis by (simp add: normalize_ext_def with_format_ext_def endswith_def)
next
  case False
  have "\<not> endswith (f @ ''.mp4'') ''.h264''"
    by (cases f rule: rev_cases) (simp_all add: endswith_def)
  with False show ?thesis by (simp add: normalize_ext_def with_format_ext_def)
qed

lemma with_format_ext_log [simp]: "with_format_ext (c\<lparr>log := l\<rparr>) f = with_format_ext c f"
  by (simp add: with_format_ext_def)

lemma last_with_suffix_json: "last (with_suffix p ''.json'') = CHR ''n''"
  by (simp add: with_suffix_def)

lemma sidecar_differs: "with_suffix (f @ ''.mp4'') ''.json'' \<noteq> f @ ''.mp4''"
proof
  assume "with_suffix (f @ ''.mp4'') ''.json'' = f @ ''.mp4''"
  then have "last (with_suffix (f @ ''.mp4'') ''.json'') = last (f @ ''.mp4'')" by simp
  then show False by (simp add: last_with_suffix_json)
qed

lemma os_remove_cases:
  "os_remove d p =
     (if path_exists d p
      then (if p \<in> set (undeletable d) then Inl (OSError ''Permission denied'')
            else Inr (d\<lparr>files := removeAll p (files d)\<rparr>))
      else Inl (FileNotFoundError ''No such file or directory''))"
  by (simp add: os_remove_def path_exists_def)

lemma create_fields [simp]:
  "undeletable (create d p) = undeletable d" "unstatable (create d p) = unstatable d"
  "unwritable (create d p) = unwritable d" "unreadable (create d p) = unreadable d"
  by (simp_all add: create_def)

lemma ffmpeg_run_fields [simp]:
  "undeletable (ffmpeg_run d p ff) = undeletable d"
  "unstatable (ffmpeg_run d p ff) = unstatable d"
  by (simp_all add: ffmpeg_run_def split: ffmpeg_result.splits)

lemma ffmpeg_run_keeps: "path_exists d q \<Longrightarrow> path_exists (ffmpeg_run d p ff) q"
  by (simp add: ffmpeg_run_def path_exists_def create_def split: ffmpeg_result.splits)

subsection \<open>Single-shot capture\<close>

text \<open>\<^verbatim>\<open>capture_swing\<close> is refused while the recording flag is set.\<close>

lemma capture_swing_busy:
  "recording c \<Longrightarrow>
   capture_swing c custom_name timestamp rr = (logmsg WARNING ''Already recording!'' c, None)"
  by (simp add: capture_swing_def)

text \<open>
  Claim C7, as stated, fails: the result of a capture whose record call raised is
  \<^verbatim>\<open>None\<close>, which is also the result of a capture refused because a recording is in
  progress. The error is in the log and not in the result.
\<close>

theorem capture_swing_failure_result_is_busy_result:
  "snd (capture_swing fresh_controller None ''T'' (RecFail True)) = None
   \<and> snd (capture_swing (fresh_controller\<lparr>recording := True\<rparr>) None ''T'' RecOk) = None
   \<and> last (log (fst (capture_swing fresh_controller None ''T'' (RecFail True))))
       = (ERROR, ''Recording failed: record failed'')
   \<and> last (log (fst (capture_swing (fresh_controller\<lparr>recording := True\<rparr>) None ''T'' RecOk)))
       = (WARNING, ''Already recording!'')"
  by code_simp

text \<open>
  Claim C7, amended. When the backend's record call raises inside \<^verbatim>\<open>capture_swing\<close>,
  the exception is caught and the call returns \<^verbatim>\<open>None\<close>, the same result as a call
  refused because a recording is in progress: the result does not carry the error, which
  is the last line of the log, at level \<open>ERROR\<close>. The recording flag is cleared and the
  recording event set, nothing is handed to the upload, and the directory is exactly as
  the backend left it; in particular the sidecar of the recording is there only if it
  was there before.
\<close>

theorem capture_swing_record_raises:
  assumes "\<not> recording c"
    and "capture_swing c custom_name timestamp (RecFail partial) = (c', r)"
  shows "r = None \<and> \<not> recording c' \<and> recording_event c'
     \<and> fs c' = snd (backend_record (fs c)
                       (with_format_ext c (capture_filename custom_name timestamp))
                       (RecFail partial))
     \<and> path_exists (fs c')
           (with_suffix (normalize_ext
              (with_format_ext c (capture_filename custom_name timestamp))) ''.json'')
         = path_exists (fs c)
           (with_suffix (normalize_ext
              (with_format_ext c (capture_filename custom_name timestamp))) ''.json'')
     \<and> uploads c' = uploads c
     \<and> last (log c') = (ERROR, ''Recording failed: record failed'')
     \<and> r = snd (capture_swing (c\<lparr>recording := True\<rparr>) custom_name timestamp rr')"
proof -
  let ?out = "with_format_ext c (capture_filename custom_name timestamp)"
  have busy: "snd (capture_swing (c\<lparr>recording := True\<rparr>) custom_name timestamp rr') = None"
    by (simp add: capture_swing_busy)
  from assms have c': "c' = (logmsg ERROR (''Recording failed: record failed'')
            (logmsg INFO (''Starting recording: '' @ ?out) c
               \<lparr>recording := True, recording_event := False,
                 fs := snd (backend_record (fs c) ?out (RecFail partial))\<rparr>))
            \<lparr>recording := False, recording_event := True\<rparr>" and r: "r = None"
    by (auto simp: capture_swing_def Let_def backend_record_def capture_failed_def logmsg_def
                   with_format_ext_def)
  have side: "path_exists (snd (backend_record (fs c) ?out (RecFail partial)))
                (with_suffix (normalize_ext ?out) ''.json'')
      = path_exists (fs c) (with_suffix (normalize_ext ?out) ''.json'')"
    using sidecar_differs[of "capture_filename custom_name timestamp"]
    by (auto simp: backend_record_def Let_def path_exists_def create_def normalize_ext_format)
  show ?thesis using side r busy by (simp add: c' logmsg_def)
qed

theorem capture_swing_record_raises_witness:
  "\<not> recording fresh_controller
   \<and> snd (capture_swing fresh_controller (Some ''drive'') ''T'' (RecFail True)) = None
   \<and> snd (capture_swing fresh_controller (Some ''drive'') ''T'' (RecFail True))
       = snd (capture_swing (fresh_controller\<lparr>recording := True\<rparr>) (Some ''drive'') ''T'' RecOk)
   \<and> \<not> recording (fst (capture_swing fresh_controller (Some ''drive'') ''T'' (RecFail True)))
   \<and> files (fs (fst (capture_swing fresh_controller (Some ''drive'') ''T'' (RecFail True))))
       = [''drive.mp4'']"
proof -
  let ?r = "capture_swing fresh_controller (Some ''drive'') ''T'' (RecFail True)"
  have a: "\<not> recording fresh_controller" by code_simp
  have b: "?r = (fst ?r, snd ?r)" by simp
  have c: "files (fs (fst ?r)) = [''drive.mp4'']" by code_simp
  have d: "snd (capture_swing (fresh_controller\<lparr>recording := True\<rparr>) (Some ''drive'') ''T'' RecOk)
             = None"
    by (simp add: capture_swing_busy)
  from capture_swing_record_raises[OF a b, of RecOk] a c d show ?thesis by simp
qed

text \<open>
  \<^verbatim>\<open>_save_metadata\<close> hands an error of the write to its caller.
\<close>

lemma save_metadata_propagates:
  "with_suffix p ''.json'' \<in> set (unwritable (fs c)) \<Longrightarrow> path_exists (fs c) p \<Longrightarrow>
     save_metadata c p ts = Inl (OSError ''Permission denied'')"
  by (simp add: save_metadata_def open_write_def Let_def)

text \<open>
  Claim C8, as stated, fails: with a sidecar that cannot be written, a capture whose
  recording succeeded returns \<^verbatim>\<open>None\<close>, although the video is on disk.
\<close>

theorem capture_swing_metadata_failure_returns_none:
  "snd (capture_swing (init_controller default_config (unwritable_dir ''swing_T.json''))
          None ''T'' RecOk) = None
   \<and> path_exists
         (fs (fst (capture_swing (init_controller default_config (unwritable_dir ''swing_T.json''))
                     None ''T'' RecOk)))
         ''swing_T.mp4''"
  by code_simp

text \<open>
  Claim C8, amended. \<^verbatim>\<open>_save_metadata\<close> propagates the error of a failed sidecar
  write to its caller. In \<^verbatim>\<open>capture_swing\<close> that caller is the handler that also
  catches a failed recording: after a recording that succeeded, a failed metadata write
  makes the call return \<^verbatim>\<open>None\<close>, with the flag cleared, the error logged as a failed
  recording, nothing handed to the upload, and the video left on disk.
\<close>

theorem capture_swing_metadata_failure:
  assumes "\<not> recording c"
    and "actual = normalize_ext (with_format_ext c (capture_filename custom_name timestamp))"
    and "with_suffix actual ''.json'' \<in> set (unwritable (fs c))"
    and "capture_swing c custom_name timestamp RecOk = (c', r)"
  shows "save_metadata (c\<lparr>fs := create (fs c) actual\<rparr>) actual timestamp
           = Inl (OSError ''Permission denied'')
     \<and> r = None \<and> \<not> recording c' \<and> recording_event c'
     \<and> path_exists (fs c') actual
     \<and> fs c' = create (fs c) actual
     \<and> uploads c' = uploads c
     \<and> last (log c') = (ERROR, ''Recording failed: Permission denied'')"
proof -
  let ?out = "with_format_ext c (capture_filename custom_name timestamp)"
  have ex: "path_exists (create (fs c) actual) actual"
    by (simp add: path_exists_def create_def)
  have unw: "unwritable (create (fs c) actual) = unwritable (fs c)"
    by (simp add: create_def)
  have sm: "save_metadata (c0\<lparr>fs := create (fs c) actual\<rparr>) actual timestamp
           = Inl (OSError ''Permission denied'')" for c0 :: controller
    using assms(3) ex unw by (simp add: save_metadata_propagates)
  have br: "backend_record (fs c) ?out RecOk = (Inr actual, create (fs c) actual)"
    using assms(2) by (simp add: backend_record_def Let_def)
  let ?c3 = "logmsg INFO (''Recording complete: '' @ actual)
              ((logmsg INFO (''Starting recording: '' @ ?out) c)
                 \<lparr>recording := True, recording_event := False,
                   fs := create (fs c) actual, recording := False, recording_event := True\<rparr>)"
  have fs3: "?c3 = ?c3\<lparr>fs := create (fs c) actual\<rparr>" by (simp add: logmsg_def)
  have sm3: "save_metadata ?c3 actual timestamp = Inl (OSError ''Permission denied'')"
    using sm[of ?c3] fs3 by simp
  from assms(1,4) have "(c', r) = capture_failed (OSError ''Permission denied'') ?c3"
    using br sm3 by (simp add: capture_swing_def Let_def logmsg_def)
  then have c': "c' = (logmsg ERROR (''Recording failed: Permission denied'') ?c3)
                        \<lparr>recording := False, recording_event := True\<rparr>" and r: "r = None"
    by (simp_all add: capture_failed_def)
  show ?thesis using sm[of c] ex r by (simp add: c' logmsg_def)
qed

theorem capture_swing_metadata_failure_witness:
  "\<not> recording (init_controller default_config (unwritable_dir ''swing_T.json''))
   \<and> ''swing_T.json'' \<in> set (unwritable (unwritable_dir ''swing_T.json''))
   \<and> snd (capture_swing (init_controller default_config (unwritable_dir ''swing_T.json''))
            None ''T'' RecOk) = None
   \<and> last (log (fst (capture_swing (init_controller default_config (unwritable_dir ''swing_T.json''))
            None ''T'' RecOk))) = (ERROR, ''Recording failed: Permission denied'')"
proof -
  let ?c = "init_controller default_config (unwritable_dir ''swing_T.json'')"
  let ?r = "capture_swing ?c None ''T'' RecOk"
  have a: "\<not> recording ?c" by code_simp
  have b: "''swing_T.mp4'' = normalize_ext (with_format_ext ?c (capture_filename None ''T''))"
    by code_simp
  have c: "with_suffix ''swing_T.mp4'' ''.json'' \<in> set (unwritable (fs ?c))" by code_simp
  have d: "?r = (fst ?r, snd ?r)" by simp
  have e: "''swing_T.json'' \<in> set (unwritable (unwritable_dir ''swing_T.json''))" by code_simp
  from capture_swing_metadata_failure[OF a b c d] a e show ?thesis by simp
qed

subsection \<open>Clip extraction\<close>

text \<open>
  Claim C5, as stated, fails: the process exits with status zero, removing the input
  raises, and \<^verbatim>\<open>_extract_clip\<close> returns \<^verbatim>\<open>False\<close> with the input still there.
\<close>

theorem extract_clip_zero_exit_remove_fails:
  "fst (extract_clip (init_controller mp4_config (stuck_dir ''temp_lm_T.mp4''))
          (Some ''temp_lm_T.mp4'') ''swing_U.mp4'' 10 (Exited 0 True)) = False
   \<and> path_exists
         (fs (snd (extract_clip (init_controller mp4_config (stuck_dir ''temp_lm_T.mp4''))
                     (Some ''temp_lm_T.mp4'') ''swing_U.mp4'' 10 (Exited 0 True))))
         ''temp_lm_T.mp4''"
  by code_simp

text \<open>
  Claim C5, amended. \<^verbatim>\<open>_extract_clip\<close> returns true only when the process exits with
  status zero, and then exactly when neither the existence test of the input nor its
  removal, when it exists, raises. Whenever it returns true the input is gone. On a
  nonzero exit, a timeout or a failure to launch it returns false. Whenever it returns
  false, an input that existed still exists. Nothing is said of the output path: the
  process may leave a file there however it ends.
\<close>

theorem extract_clip_result:
  assumes "extract_clip c (Some inp) out duration ff = (ok, c')"
  shows "(ok \<longrightarrow> (\<exists>wrote. ff = Exited 0 wrote) \<and> \<not> path_exists (fs c') inp)
     \<and> ok = ((\<exists>wrote. ff = Exited 0 wrote)
              \<and> inp \<notin> set (unstatable (fs c))
              \<and> (path_exists (ffmpeg_run (fs c) out ff) inp
                    \<longrightarrow> inp \<notin> set (undeletable (fs c))))
     \<and> ((\<forall>wrote. ff \<noteq> Exited 0 wrote) \<longrightarrow> \<not> ok)
     \<and> (\<not> ok \<longrightarrow> path_exists (fs c) inp \<longrightarrow> path_exists (fs c') inp)"
proof (cases ff)
  case (Exited rc wrote)
  show ?thesis
  proof (cases "rc = 0")
    case True
    have k: "path_exists (fs c) inp \<Longrightarrow> path_exists (ffmpeg_run (fs c) out ff) inp"
      by (rule ffmpeg_run_keeps)
    from True Exited assms k show ?thesis
      by (auto simp: extract_clip_def Let_def logmsg_def os_remove_cases stat_exists_def
                     path_exists_def
               split: if_splits bool.splits)
  next
    case False
    with Exited assms ffmpeg_run_keeps[of "fs c" inp out ff] show ?thesis
      by (auto simp: extract_clip_def Let_def logmsg_def)
  qed
next
  case (FfmpegTimedOut wrote)
  with assms ffmpeg_run_keeps[of "fs c" inp out ff] show ?thesis
    by (auto simp: extract_clip_def Let_def logmsg_def)
next
  case LaunchFailed
  with assms ffmpeg_run_keeps[of "fs c" inp out ff] show ?thesis
    by (auto simp: extract_clip_def Let_def logmsg_def)
qed

theorem extract_clip_result_witness:
  "fst (extract_clip (init_controller mp4_config
                        \<lparr>files = [''temp_lm_T.mp4''], undeletable = [], unwritable = [],
                          unreadable = [], unstatable = []\<rparr>)
          (Some ''temp_lm_T.mp4'') ''swing_U.mp4'' 10 (Exited 0 True))
   \<and> \<not> path_exists
         (fs (snd (extract_clip (init_controller mp4_config
                        \<lparr>files = [''temp_lm_T.mp4''], undeletable = [], unwritable = [],
                          unreadable = [], unstatable = []\<rparr>)
          (Some ''temp_lm_T.mp4'') ''swing_U.mp4'' 10 (Exited 0 True))))
         ''temp_lm_T.mp4''
   \<and> \<not> fst (extract_clip (init_controller mp4_config
                        \<lparr>files = [''temp_lm_T.mp4''], undeletable = [], unwritable = [],
                          unreadable = [], unstatable = []\<rparr>)
          (Some ''temp_lm_T.mp4'') ''swing_U.mp4'' 10 (Exited 1 True))
   \<and> path_exists
         (fs (snd (extract_clip (init_controller mp4_config
                        \<lparr>files = [''temp_lm_T.mp4''], undeletable = [], unwritable = [],
                          unreadable = [], unstatable = []\<rparr>)
          (Some ''temp_lm_T.mp4'') ''swing_U.mp4'' 10 (Exited 1 True))))
         ''temp_lm_T.mp4''"
proof -
  let ?c = "init_controller mp4_config
              \<lparr>files = [''temp_lm_T.mp4''], undeletable = [], unwritable = [], unreadable = [],
                unstatable = []\<rparr>"
  let ?a = "extract_clip ?c (Some ''temp_lm_T.mp4'') ''swing_U.mp4'' 10 (Exited 0 True)"
  let ?b = "extract_clip ?c (Some ''temp_lm_T.mp4'') ''swing_U.mp4'' 10 (Exited 1 True)"
  have a: "?a = (fst ?a, snd ?a)" and b: "?b = (fst ?b, snd ?b)" by simp_all
  have u: "''temp_lm_T.mp4'' \<notin> set (undeletable (fs ?c))" by code_simp
  have v: "''temp_lm_T.mp4'' \<notin> set (unstatable (fs ?c))" by code_simp
  have e: "path_exists (fs ?c) ''temp_lm_T.mp4''" by code_simp
  from extract_clip_result[OF a] extract_clip_result[OF b] u v e show ?thesis by auto
qed

subsection \<open>Cancelling\<close>

lemma worker_start_frame:
  "lm_temp_file (worker_start c) = lm_temp_file c \<and> lm_state (worker_start c) = lm_state c
   \<and> lm_recording_start_time (worker_start c) = lm_recording_start_time c
   \<and> lm_cancel_event (worker_start c) = lm_cancel_event c \<and> fs (worker_start c) = fs c"
  by (simp add: worker_start_def logmsg_def Let_def split: option.splits thread.splits)

text \<open>
  Once the cancel event is set, the rest of the worker changes neither the temp path nor
  the arm timestamp, and it leaves the state \<open>IDLE\<close> if it was.
\<close>

lemma worker_finish_cancelled:
  assumes "lm_cancel_event c"
  shows "lm_temp_file (worker_finish c rr) = lm_temp_file c
   \<and> lm_recording_start_time (worker_finish c rr) = lm_recording_start_time c
   \<and> lm_cancel_event (worker_finish c rr)
   \<and> undeletable (fs (worker_finish c rr)) = undeletable (fs c)
   \<and> unstatable (fs (worker_finish c rr)) = unstatable (fs c)
   \<and> (lm_state c = IDLE \<longrightarrow> lm_state (worker_finish c rr) = IDLE)"
  using assms
  by (auto simp: worker_finish_def worker_failed_def logmsg_def Let_def backend_record_def create_def
           split: option.splits thread.splits rec_result.splits)

lemma join_worker_cancelled:
  assumes "lm_cancel_event c"
  shows "lm_temp_file (join_worker c jr) = lm_temp_file c
   \<and> lm_recording_start_time (join_worker c jr) = lm_recording_start_time c
   \<and> lm_cancel_event (join_worker c jr)
   \<and> undeletable (fs (join_worker c jr)) = undeletable (fs c)
   \<and> unstatable (fs (join_worker c jr)) = unstatable (fs c)
   \<and> (lm_state c = IDLE \<longrightarrow> lm_state (join_worker c jr) = IDLE)"
proof (cases jr)
  case None
  then show ?thesis using assms by (simp add: join_worker_def)
next
  case (Some rr)
  have "lm_cancel_event (worker_start c)" using assms by (simp add: worker_start_frame)
  from worker_finish_cancelled[OF this, of rr] Some show ?thesis
    by (simp add: join_worker_def worker_start_frame)
qed




subsection \<open>The cancel event and the record call\<close>

declare picamera2_wait.simps [simp del]

text \<open>
  \<^verbatim>\<open>PiCamera2Backend.record\<close> without a cancel event waits for the whole duration.
\<close>

lemma picamera2_wait_no_event:
  "cancel_event = None \<Longrightarrow> start_time \<le> now \<Longrightarrow> now \<le> start_time + 1000 * duration \<Longrightarrow>
   (start_time + 1000 * duration - now) mod 100 = 0 \<Longrightarrow>
   picamera2_wait start_time now duration cancel_event = start_time + 1000 * duration"
proof (induction start_time now duration cancel_event rule: picamera2_wait.induct)
  case (1 start_time now duration cancel_event)
  define D where "D = 1000 * duration"
  note prems = "1.prems"[folded D_def]
  have "picamera2_wait start_time now duration cancel_event = start_time + D"
  proof (cases "now - start_time < D")
    case True
    have nc: "\<not> is_cancelled cancel_event now"
      using prems(1) by (simp add: is_cancelled_def)
    from True have lt: "now < start_time + D" by simp
    from prems(4) have "100 dvd (start_time + D - now)"
      by (simp only: mod_eq_0_iff_dvd)
    then obtain k where k: "start_time + D - now = 100 * k"
      by (auto simp only: dvd_def)
    with lt have kpos: "0 < k" by (cases k) simp_all
    from k kpos lt have le: "now + 100 \<le> start_time + D" by linarith
    from k le have "start_time + D - (now + 100) = 100 * (k - 1)" by linarith
    then have m: "(start_time + D - (now + 100)) mod 100 = 0" by simp
    have "picamera2_wait start_time now duration cancel_event
            = picamera2_wait start_time (now + 100) duration cancel_event"
      using True nc unfolding D_def by (subst picamera2_wait.simps) simp
    also have "\<dots> = start_time + D"
      using "1.IH" True nc prems(1,2) le m unfolding D_def by simp
    finally show ?thesis .
  next
    case False
    with prems have "now = start_time + D" by simp
    with False show ?thesis unfolding D_def by (subst picamera2_wait.simps) simp
  qed
  then show ?case by (simp only: D_def)
qed

text \<open>
  With a cancel event that is set from \<open>tc\<close> on, it returns before \<open>tc + 100\<close>, or at
  once when it is called later than that.
\<close>

lemma picamera2_wait_polls:
  "(\<And>t. tc \<le> t \<Longrightarrow> ev t) \<Longrightarrow>
   picamera2_wait start_time now duration (Some ev) \<le> max now (tc + 99)"
proof (induction start_time now duration "Some ev" rule: picamera2_wait.induct)
  case (1 start_time now duration)
  show ?case
  proof (cases "now - start_time < 1000 * duration \<and> \<not> is_cancelled (Some ev) now")
    case True
    then have "\<not> ev now" by (simp add: is_cancelled_def)
    with "1.prems" have "now < tc" by (meson not_le)
    moreover have "picamera2_wait start_time (now + 100) duration (Some ev)
                     \<le> max (now + 100) (tc + 99)"
      using "1.hyps" True "1.prems" by blast
    moreover have "picamera2_wait start_time now duration (Some ev)
                     = picamera2_wait start_time (now + 100) duration (Some ev)"
      using True by (subst picamera2_wait.simps) simp
    ultimately show ?thesis by simp
  next
    case False
    then have "picamera2_wait start_time now duration (Some ev) = now"
      by (subst picamera2_wait.simps) auto
    then show ?thesis by simp
  qed
qed

text \<open>\<^verbatim>\<open>DemoBackend.record\<close> does the same whatever the cancel event is.\<close>

lemma demo_record_ignores_event:
  "demo_record cv2_writer_opened fps frame_ms now duration cancel_event
     = demo_record cv2_writer_opened fps frame_ms now duration None"
  by (simp add: demo_record_def)

text \<open>
  Whatever the controller and its thread are, the record call that the worker enters
  has no cancel event.
\<close>

lemma worker_start_passes_no_event:
  "lm_recording_thread c = Some Spawned \<Longrightarrow>
   lm_recording_thread (worker_start c)
     = Some (InRecord (lm_temp_file c) (cfg_lm_max_recording_duration (config c)) None)"
  by (simp add: worker_start_def logmsg_def Let_def)

text \<open>
  Claim C1, on the code. After \<^verbatim>\<open>arm_launch_monitor\<close> with the default
  configuration the worker is inside \<^verbatim>\<open>record(temp_lm_T.h264, 60)\<close> with no cancel
  event. A shot detected one second later sets the controller's event, waits, and
  leaves the worker inside the same call. On the PiCamera2 backend the call made, with
  no event, returns after 60 s; the call the claim describes, with the controller's
  event, would return after 1 s.
\<close>

theorem worker_record_call_without_cancel_event:
  "lm_recording_thread recording_controller
     = Some (InRecord (Some ''temp_lm_T.h264'') 60 None)
   \<and> lm_cancel_event (fst (shot_detected recording_controller ''U'' None (Exited 1 False)))
   \<and> lm_recording_thread (fst (shot_detected recording_controller ''U'' None (Exited 1 False)))
       = Some (InRecord (Some ''temp_lm_T.h264'') 60 None)
   \<and> picamera2_wait 0 0 60 (passed_event (cancel_history 1000) None) = 60000
   \<and> picamera2_wait 0 0 60 (passed_event (cancel_history 1000) (Some LM_CANCEL_EVENT)) = 1000"
proof -
  have a: "lm_recording_thread recording_controller
             = Some (InRecord (Some ''temp_lm_T.h264'') 60 None)"
    by code_simp
  have b: "lm_cancel_event (fst (shot_detected recording_controller ''U'' None (Exited 1 False)))"
    by code_simp
  have c: "lm_recording_thread (fst (shot_detected recording_controller ''U'' None (Exited 1 False)))
             = Some (InRecord (Some ''temp_lm_T.h264'') 60 None)"
    by code_simp
  have d: "picamera2_wait 0 0 60 (passed_event (cancel_history 1000) None) = 60000"
    using picamera2_wait_no_event[of "passed_event (cancel_history 1000) None" 0 0 60]
    by (simp add: passed_event_def)
  have e: "picamera2_wait 0 0 60 (passed_event (cancel_history 1000) (Some LM_CANCEL_EVENT))
             = 1000"
    by (simp add: picamera2_wait.simps is_cancelled_def passed_event_def cancel_history_def)
  from a b c d e show ?thesis by simp
qed

text \<open>
  Claim C9, on the code. The demo backend is called with a cancel event that is set
  from the start, for 10 s at 120 fps. Without OpenCV it returns after the full 10 s;
  with OpenCV it writes all 1200 frames. The PiCamera2 loop, given the same event,
  returns at once.
\<close>

theorem demo_record_ignores_cancel_event:
  "demo_record False 120 1 0 10 (Some (set_from 0)) = (0, 10000)
   \<and> demo_record True 120 1 0 10 (Some (set_from 0)) = (1200, 1200)
   \<and> picamera2_wait 0 0 10 (Some (set_from 0)) = 0"
  by (simp add: demo_record_def picamera2_wait.simps is_cancelled_def set_from_def)

subsection \<open>The launch-monitor invariant\<close>

text \<open>
  The three public methods that change the controller keep the invariant, whatever the
  worker does while they wait for it (\<^verbatim>\<open>cancel_launch_monitor\<close> when it returns
  rather than raises); \<^verbatim>\<open>get_lm_status\<close> returns no controller.
\<close>

lemma arm_keeps_invariant:
  "lm_invariant c \<Longrightarrow> lm_invariant (fst (arm_launch_monitor c timestamp now))"
  by (simp add: arm_launch_monitor_def lm_invariant_def logmsg_def Let_def)

lemma shot_detected_keeps_invariant:
  "lm_invariant c \<Longrightarrow> lm_invariant (fst (shot_detected c timestamp jr ff))"
  by (simp add: shot_detected_def lm_invariant_def lm_reset_def logmsg_def Let_def
           split: prod.splits sum.splits bool.splits)

lemma cancel_keeps_invariant:
  assumes "lm_invariant c"
    and "snd (cancel_launch_monitor c jr) = Inr r"
  shows "lm_invariant (fst (cancel_launch_monitor c jr))"
proof (cases "lm_state c = IDLE")
  case True
  with assms show ?thesis by (simp add: cancel_launch_monitor_def)
next
  case False
  let ?c1 = "(logmsg INFO ''Cancelling launch monitor recording...'' c)
               \<lparr>lm_cancel_event := True, lm_state := IDLE\<rparr>"
  have "lm_state (join_worker ?c1 jr) = IDLE"
    using join_worker_cancelled[of ?c1 jr] by simp
  with False assms(2) show ?thesis
    by (auto simp: cancel_launch_monitor_def lm_invariant_def lm_clear_def Let_def logmsg_def
             split: option.splits sum.splits bool.splits)
qed

text \<open>
  So does the worker when its record call returns and, on a timeout, the temp file can
  be examined and removed.
\<close>

lemma worker_start_keeps_invariant:
  "lm_invariant c \<Longrightarrow> lm_invariant (worker_start c)"
  using worker_start_frame[of c] by (simp add: lm_invariant_def)

lemma worker_finish_keeps_invariant:
  assumes "lm_invariant c"
    and "\<And>temp. lm_temp_file c = Some temp \<Longrightarrow> temp \<notin> set (undeletable (fs c))"
    and "\<And>temp. lm_temp_file c = Some temp \<Longrightarrow> temp \<notin> set (unstatable (fs c))"
  shows "lm_invariant (worker_finish c RecOk)"
  using assms
  by (auto simp: worker_finish_def worker_clear_def lm_invariant_def logmsg_def Let_def
                 backend_record_def os_remove_cases stat_exists_def create_def path_exists_def
           split: option.splits thread.splits bool.splits)

text \<open>
  Claim C2, on the code. The controller is armed and its worker is inside
  \<^verbatim>\<open>backend.record\<close>; the invariant holds. The call raises. The worker's handler sets
  the state to \<open>IDLE\<close> and clears the recording flag, and nothing else: the temp path
  and the arm timestamp stay set, the invariant no longer holds, and a status read four
  seconds later reports \<^verbatim>\<open>idle\<close> with a recording duration of 3995 ms.
\<close>

theorem worker_exception_breaks_invariant:
  "lm_invariant recording_controller
   \<and> lm_state (worker_finish recording_controller (RecFail False)) = IDLE
   \<and> lm_temp_file (worker_finish recording_controller (RecFail False))
       = Some ''temp_lm_T.h264''
   \<and> lm_recording_start_time (worker_finish recording_controller (RecFail False)) = Some 5
   \<and> \<not> lm_invariant (worker_finish recording_controller (RecFail False))
   \<and> get_lm_status (worker_finish recording_controller (RecFail False)) 4000
       = (''idle'', 3995, 60)"
  by code_simp

subsection \<open>Mutual exclusion of the two modes\<close>

text \<open>
  Claim C3, on the code. Right after \<^verbatim>\<open>arm_launch_monitor\<close> has returned, the state
  is \<open>ARMED\<close> and the worker has not yet set the recording flag. \<^verbatim>\<open>capture_swing\<close>
  is not refused: it calls the backend, writes the video and its sidecar, and returns
  the recording.
\<close>

theorem capture_swing_while_armed:
  "lm_state armed_controller = ARMED
   \<and> \<not> recording armed_controller
   \<and> snd (capture_swing armed_controller None ''U'' RecOk) = Some ''swing_U.mp4''
   \<and> files (fs (fst (capture_swing armed_controller None ''U'' RecOk)))
       = [''swing_U.mp4'', ''swing_U.json'']
   \<and> lm_state (fst (capture_swing armed_controller None ''U'' RecOk)) = ARMED"
  by code_simp

subsection \<open>The worker's timeout\<close>

text \<open>
  When the record call returns with the cancel event not set, the worker sets the state
  to \<open>IDLE\<close>, clears the temp path and the arm timestamp, and the path that was stored
  as the temp file does not exist afterwards, provided the path can be examined and
  \<^verbatim>\<open>os.remove\<close> can remove it.
\<close>

lemma worker_timeout_clears:
  assumes "lm_recording_thread c = Some (InRecord output_path max_duration cancel_event)"
    and "\<not> lm_cancel_event c"
    and "lm_temp_file c = Some temp"
    and "temp \<notin> set (undeletable (fs c))"
    and "temp \<notin> set (unstatable (fs c))"
  shows "lm_state (worker_finish c RecOk) = IDLE
     \<and> lm_temp_file (worker_finish c RecOk) = None
     \<and> lm_recording_start_time (worker_finish c RecOk) = None
     \<and> \<not> recording (worker_finish c RecOk)
     \<and> \<not> path_exists (fs (worker_finish c RecOk)) temp"
  using assms
  by (auto simp: worker_finish_def worker_clear_def logmsg_def Let_def
                 backend_record_def os_remove_cases stat_exists_def create_def path_exists_def
           split: bool.splits)

text \<open>
  Claim C6, on the code. With the default configuration, whose format is \<^verbatim>\<open>h264\<close>,
  the stored temp path is \<^verbatim>\<open>temp_lm_T.h264\<close> and the backend writes
  \<^verbatim>\<open>temp_lm_T.mp4\<close>. When the record call returns after the maximum duration with
  the cancel event not set, the worker sets the state to \<open>IDLE\<close> and clears the temp
  path and the arm timestamp, but the file it looks for is not the file that was
  written: the recording stays on disk.
\<close>

theorem worker_timeout_leaves_recording:
  "lm_temp_file recording_controller = Some ''temp_lm_T.h264''
   \<and> \<not> lm_cancel_event recording_controller
   \<and> lm_state (worker_finish recording_controller RecOk) = IDLE
   \<and> lm_temp_file (worker_finish recording_controller RecOk) = None
   \<and> lm_recording_start_time (worker_finish recording_controller RecOk) = None
   \<and> files (fs (worker_finish recording_controller RecOk)) = [''temp_lm_T.mp4'']"
  by code_simp

subsection \<open>Which files are listed and deleted\<close>
















end
